theory Spec2Isabelle
  imports Complex_Main
begin

section \<open>The workflow editor: data model\<close>

text \<open>
  The development embeds the class \<open>WorkflowEditor\<close> (the monolithic editor) as functions
  over a record of its fields. Only the fields the class itself owns are modelled; the
  document tree it renders into is an external collaborator, and every statement that only
  reads or writes the document (\<open>renderNode\<close>, \<open>renderConnection\<close>, \<open>hideProperties\<close>,
  \<open>updateSaveButton\<close>, the temporary connection line, ...) is left out. The elements those
  statements look up by id are taken to be present in the page.

  JavaScript numbers are IEEE doubles. Coordinates and the zoom level are modelled as
  \<open>real\<close>, the node counter as \<open>int\<close>: the model is exact arithmetic, without rounding
  and without the loss of integer precision above \<open>2 ^ 53\<close>. Strings are lists of code
  units below 256.
\<close>

record point =
  px :: real
  py :: real

text \<open>The values of configuration fields.\<close>

datatype jsvalue = JNull | JStr string | JNum real | JBool bool

text \<open>A field descriptor of a configuration schema; \<open>field_default = None\<close> is a descriptor
  without a \<open>default\<close> property (\<open>field.default !== undefined\<close> fails). The presentation attributes (type, label, placeholder,
  options, required) are read by the form generator only.\<close>

record field_descr =
  field_name :: string
  field_default :: "jsvalue option"

text \<open>A node type descriptor. \<open>config_schema = None\<close> stands for a descriptor whose
  \<open>config_schema\<close> or \<open>config_schema.fields\<close> is missing.\<close>

record node_type =
  nt_name :: string
  display_name :: string
  category :: string
  config_schema :: "field_descr list option"

text \<open>A node of the store. \<open>createNode\<close> leaves the last three fields undefined (\<open>None\<close>);
  \<open>loadWorkflow\<close> sets them.\<close>

record node =
  n_id :: string
  n_type :: string
  n_name :: string
  n_position :: point
  n_config :: "(string \<times> jsvalue) list"
  n_inputs :: "string list"
  n_outputs :: "string list"
  n_description :: "string option"
  n_continue_on_error :: "bool option"
  n_timeout :: "int option"

record connection =
  c_id :: string
  c_source :: string
  c_sourceHandle :: string
  c_target :: string
  c_targetHandle :: string

text \<open>The serialized workflow (the wire shape). A missing, \<open>null\<close> or \<open>undefined\<close>
  property is \<open>None\<close>.\<close>

record node_data =
  nd_id :: string
  nd_type :: string
  nd_name :: string
  nd_position :: point
  nd_config :: "(string \<times> jsvalue) list option"
  nd_description :: "string option"
  nd_continue_on_error :: "bool option"
  nd_timeout :: "int option"

record connection_data =
  cd_id :: string
  cd_source :: string
  cd_sourceHandle :: "string option"
  cd_target :: string
  cd_targetHandle :: "string option"

record workflow_data =
  wd_nodes :: "node_data list option"
  wd_connections :: "connection_data list option"

record connection_start =
  cs_nodeId :: string
  cs_handle :: string
  cs_position :: point

record editor =
  workflowData :: workflow_data
  selectedNode :: "string option"
  selectedConnection :: "string option"
  isDragging :: bool
  isPanning :: bool
  isConnecting :: bool
  connectionStart :: "connection_start option"
  dragOffset :: point
  lastMousePos :: point
  nodeCounter :: int
  clipboard :: "node option"
  canvasOffset :: point
  zoomLevel :: real
  gridSize :: real
  nodeTypes :: "(string \<times> node_type) list"
  nodes :: "(string \<times> node) list"
  connections :: "(string \<times> connection) list"
  isDirty :: bool

subsection \<open>JavaScript \<open>Map\<close>: an association list in insertion order\<close>

text \<open>\<open>Map.prototype.set\<close> replaces the value of a key that is present, in place, and appends
  a key that is not; \<open>delete\<close> removes the key and is silent about a key that is absent;
  \<open>get\<close> is \<open>map_of\<close>, with \<open>None\<close> for \<open>undefined\<close>.\<close>

fun map_set :: "'k \<Rightarrow> 'v \<Rightarrow> ('k \<times> 'v) list \<Rightarrow> ('k \<times> 'v) list" where
  "map_set k v [] = [(k, v)]"
| "map_set k v (p # ps) = (if fst p = k then (k, v) # ps else p # map_set k v ps)"


subsection \<open>Methods: a value or an error, and the state left behind\<close>

text \<open>A method of the class is a function from the editor's state to what the call
  produced (\<open>Inr\<close> the value returned, \<open>Inl\<close> the exception thrown) and the state it left:
  an exception does not undo the assignments made before it. The one exception the modelled
  statements can throw is the \<open>TypeError\<close> of reading a property of \<open>undefined\<close>.\<close>

datatype error = TypeError

type_synonym 'a js = "editor \<Rightarrow> (error + 'a) \<times> editor"

definition ret :: "'a \<Rightarrow> 'a js" where
  "ret v s = (Inr v, s)"

definition throw :: "error \<Rightarrow> 'a js" where
  "throw e s = (Inl e, s)"

definition bind :: "'a js \<Rightarrow> ('a \<Rightarrow> 'b js) \<Rightarrow> 'b js" where
  "bind m f s = (case m s of (Inl e, s') \<Rightarrow> (Inl e, s') | (Inr v, s') \<Rightarrow> f v s')"

definition modify :: "(editor \<Rightarrow> editor) \<Rightarrow> unit js" where
  "modify f s = (Inr (), f s)"

text \<open>\<open>Array.prototype.forEach\<close> with a callback that may throw.\<close>

fun forEach :: "'a list \<Rightarrow> ('a \<Rightarrow> unit js) \<Rightarrow> unit js" where
  "forEach [] f s = (Inr (), s)"
| "forEach (v # vs) f s =
     (case f v s of (Inl e, s') \<Rightarrow> (Inl e, s') | (Inr u, s') \<Rightarrow> forEach vs f s')"

section \<open>Selection and the dirty flag\<close>

definition markDirty :: "unit js" where
  "markDirty = modify (\<lambda>s. s\<lparr>isDirty := True\<rparr>)"

definition deselectAll :: "unit js" where
  "deselectAll = modify (\<lambda>s. s\<lparr>selectedNode := None, selectedConnection := None\<rparr>)"

text \<open>\<open>showNodeProperties\<close> reads \<open>node.type\<close> before it tests \<open>node\<close>: for an id that is
  not in \<open>nodes\<close> it throws. Past that read it only fills the properties panel.\<close>

definition showNodeProperties :: "string \<Rightarrow> unit js" where
  "showNodeProperties nodeId s =
     (case map_of (nodes s) nodeId of
        None \<Rightarrow> throw TypeError s
      | Some node \<Rightarrow> ret () s)"

definition selectNode :: "string \<Rightarrow> unit js" where
  "selectNode nodeId =
     bind deselectAll (\<lambda>_.
     bind (modify (\<lambda>s. s\<lparr>selectedNode := Some nodeId\<rparr>)) (\<lambda>_.
     showNodeProperties nodeId))"

section \<open>Deleting connections and nodes\<close>



section \<open>Numbers in strings\<close>

text \<open>The template literal \<open>`node_${n}`\<close> writes the integer \<open>n\<close> in decimal.\<close>

definition digit_char :: "nat \<Rightarrow> char" where
  "digit_char d = char_of (48 + d)"

fun digits :: "nat \<Rightarrow> string" where
  "digits n = (if n < 10 then [digit_char n] else digits (n div 10) @ [digit_char (n mod 10)])"

declare digits.simps [simp del]

definition number_to_string :: "int \<Rightarrow> string" where
  "number_to_string i = (if i < 0 then CHR ''-'' # digits (nat (- i)) else digits (nat i))"

text \<open>\<open>String.prototype.split\<close> with a one-character separator: the pieces between the
  separators, the empty ones included; at least one piece.\<close>

fun split :: "char \<Rightarrow> string \<Rightarrow> string list" where
  "split sep [] = [[]]"
| "split sep (c # cs) =
     (if c = sep then [] # split sep cs
      else (case split sep cs of [] \<Rightarrow> [[c]] | w # ws \<Rightarrow> (c # w) # ws))"

text \<open>Indexing an array: \<open>None\<close> is the \<open>undefined\<close> of an index out of range.\<close>

fun index :: "'a list \<Rightarrow> nat \<Rightarrow> 'a option" where
  "index [] i = None"
| "index (v # vs) 0 = Some v"
| "index (v # vs) (Suc i) = index vs i"

text \<open>\<open>parseInt\<close> without a radix: leading white space is skipped, then an optional sign,
  then a \<open>0x\<close> or \<open>0X\<close> prefix selects base 16; the longest run of digits of the base is
  read, and no digit at all gives \<open>NaN\<close> (\<open>None\<close>). White space is the tab, the line feed,
  the vertical tab, the form feed, the carriage return, the space and the no-break space.\<close>

definition is_white_space :: "char \<Rightarrow> bool" where
  "is_white_space c = (of_char c \<in> {9, 10, 11, 12, 13, 32, 160 :: nat})"

definition digit_value :: "char \<Rightarrow> nat option" where
  "digit_value c =
     (let k = of_char c :: nat in
      if 48 \<le> k \<and> k \<le> 57 then Some (k - 48)
      else if 97 \<le> k \<and> k \<le> 122 then Some (k - 87)
      else if 65 \<le> k \<and> k \<le> 90 then Some (k - 55)
      else None)"

definition is_digit :: "nat \<Rightarrow> char \<Rightarrow> bool" where
  "is_digit radix c = (case digit_value c of None \<Rightarrow> False | Some d \<Rightarrow> d < radix)"

definition digits_value :: "nat \<Rightarrow> string \<Rightarrow> nat" where
  "digits_value radix z =
     foldl (\<lambda>acc c. acc * radix + (case digit_value c of None \<Rightarrow> 0 | Some d \<Rightarrow> d)) 0 z"

definition parse_digits :: "nat \<Rightarrow> string \<Rightarrow> nat option" where
  "parse_digits radix s =
     (let z = takeWhile (is_digit radix) s
      in if z = [] then None else Some (digits_value radix z))"

definition parse_unsigned :: "string \<Rightarrow> nat option" where
  "parse_unsigned s =
     (case s of
        c # d # rest \<Rightarrow>
          if c = CHR ''0'' \<and> (d = CHR ''x'' \<or> d = CHR ''X'') then parse_digits 16 rest
          else parse_digits 10 s
      | _ \<Rightarrow> parse_digits 10 s)"

definition parseInt :: "string \<Rightarrow> int option" where
  "parseInt str =
     (case dropWhile is_white_space str of
        [] \<Rightarrow> None
      | c # cs \<Rightarrow>
          if c = CHR ''-'' then map_option (\<lambda>n. - int n) (parse_unsigned cs)
          else if c = CHR ''+'' then map_option int (parse_unsigned cs)
          else map_option int (parse_unsigned (c # cs)))"

text \<open>\<open>parseInt(node.id.split('_')[1])\<close>: a missing second piece is \<open>undefined\<close>, which
  \<open>parseInt\<close> reads as the string \<open>undefined\<close>.\<close>

definition numeric_id :: "string \<Rightarrow> int option" where
  "numeric_id ident =
     parseInt (case index (split CHR ''_'' ident) 1 of None \<Rightarrow> ''undefined'' | Some t \<Rightarrow> t)"

section \<open>Creating nodes\<close>

definition getDefaultConfig :: "node_type \<Rightarrow> (string \<times> jsvalue) list" where
  "getDefaultConfig nodeType =
     (case config_schema nodeType of
        None \<Rightarrow> []
      | Some flds \<Rightarrow>
          foldl (\<lambda>config field.
                   case field_default field of
                     None \<Rightarrow> config
                   | Some d \<Rightarrow> map_set (field_name field) d config)
                [] flds)"

definition getNodeInputs :: "node_type \<Rightarrow> string list" where
  "getNodeInputs nodeType = (if category nodeType = ''trigger'' then [] else [''input''])"

definition getNodeOutputs :: "node_type \<Rightarrow> string list" where
  "getNodeOutputs nodeType =
     (if nt_name nodeType = ''condition'' then [''true'', ''false'']
      else if nt_name nodeType = ''switch'' then [''output'']
      else [''output''])"

definition createNode :: "node_type \<Rightarrow> point \<Rightarrow> string js" where
  "createNode nodeType position s =
     (let s1 = s\<lparr>nodeCounter := nodeCounter s + 1\<rparr>;
          nodeId = ''node_'' @ number_to_string (nodeCounter s1);
          node = \<lparr>n_id = nodeId, n_type = nt_name nodeType, n_name = display_name nodeType,
                  n_position = position, n_config = getDefaultConfig nodeType,
                  n_inputs = getNodeInputs nodeType, n_outputs = getNodeOutputs nodeType,
                  n_description = None, n_continue_on_error = None, n_timeout = None\<rparr>
      in bind (modify (\<lambda>s. s\<lparr>nodes := map_set nodeId node (nodes s)\<rparr>)) (\<lambda>_.
         bind (selectNode nodeId) (\<lambda>_.
         bind markDirty (\<lambda>_.
         ret nodeId))) s1)"

text \<open>A sequence of \<open>createNode\<close> calls, with the ids they returned.\<close>

fun createNodes :: "(node_type \<times> point) list \<Rightarrow> editor \<Rightarrow> string list \<times> editor" where
  "createNodes [] s = ([], s)"
| "createNodes ((nodeType, position) # rest) s =
     (case createNode nodeType position s of
        (Inl e, s') \<Rightarrow> ([], s')
      | (Inr nodeId, s') \<Rightarrow> (case createNodes rest s' of (ids, s'') \<Rightarrow> (nodeId # ids, s'')))"

section \<open>Connections\<close>

text \<open>The id of a new connection is made of the clock and a random number:
  \<open>`connection_${Date.now()}_${Math.random().toString(36).substr(2, 9)}`\<close>. Both are inputs
  of the model: \<open>now\<close> the milliseconds read, \<open>rnd\<close> the characters the random number gave.\<close>

definition connection_id :: "nat \<Rightarrow> string \<Rightarrow> string" where
  "connection_id now rnd = ''connection_'' @ number_to_string (int now) @ ''_'' @ rnd"

definition addConnection :: "nat \<Rightarrow> string \<Rightarrow> string \<Rightarrow> string \<Rightarrow> string \<Rightarrow> string \<Rightarrow> string js" where
  "addConnection now rnd sourceNodeId sourceHandle targetNodeId targetHandle =
     (let connectionId = connection_id now rnd;
          connection = \<lparr>c_id = connectionId, c_source = sourceNodeId,
                        c_sourceHandle = sourceHandle, c_target = targetNodeId,
                        c_targetHandle = targetHandle\<rparr>
      in bind (modify (\<lambda>s. s\<lparr>connections := map_set connectionId connection (connections s)\<rparr>)) (\<lambda>_.
         bind markDirty (\<lambda>_.
         ret connectionId)))"

text \<open>What a pointer event hit: an input handle of a node (an element of classes
  \<open>node-handle\<close> and \<open>input\<close>, with the id of the node element around it and its
  \<open>data-handle\<close>), or anything else.\<close>

datatype event_target = InputHandle string string | OtherTarget

record mouse_event =
  clientX :: real
  clientY :: real
  deltaY :: real
  target :: event_target

text \<open>\<open>startConnection\<close>; the position of the handle is measured in the document and
  passed in.\<close>

definition startConnection :: "string \<Rightarrow> string \<Rightarrow> point \<Rightarrow> unit js" where
  "startConnection sourceNodeId sourceHandle handlePosition =
     modify (\<lambda>s. s\<lparr>isConnecting := True,
                    connectionStart := Some \<lparr>cs_nodeId = sourceNodeId, cs_handle = sourceHandle,
                                             cs_position = handlePosition\<rparr>\<rparr>)"

definition finishConnection :: "nat \<Rightarrow> string \<Rightarrow> mouse_event \<Rightarrow> unit js" where
  "finishConnection now rnd e =
     bind (modify (\<lambda>s. s\<lparr>isConnecting := False\<rparr>)) (\<lambda>_.
     bind (\<lambda>s. case target e of
                 InputHandle targetNodeId targetHandle \<Rightarrow>
                   (case connectionStart s of
                      None \<Rightarrow> ret () s
                    | Some start \<Rightarrow>
                        if targetNodeId \<noteq> cs_nodeId start
                        then bind (addConnection now rnd (cs_nodeId start) (cs_handle start)
                                     targetNodeId targetHandle) (\<lambda>_. ret ()) s
                        else ret () s)
               | OtherTarget \<Rightarrow> ret () s) (\<lambda>_.
     modify (\<lambda>s. s\<lparr>connectionStart := None\<rparr>)))"

section \<open>The canvas: dragging, panning and zooming\<close>









text \<open>The body of \<open>onCanvasWheel\<close> from the computation of \<open>newZoom\<close> on, with the pointer
  (relative to the canvas) and the scale factor as parameters: the zoom towards a point.\<close>

definition zoomAt :: "point \<Rightarrow> real \<Rightarrow> unit js" where
  "zoomAt mouse scaleFactor =
     modify (\<lambda>s.
       let newZoom = max (1 / 10) (min 3 (zoomLevel s * scaleFactor));
           scaleChange = newZoom / zoomLevel s
       in s\<lparr>canvasOffset :=
               \<lparr>px = px mouse - (px mouse - px (canvasOffset s)) * scaleChange,
                py = py mouse - (py mouse - py (canvasOffset s)) * scaleChange\<rparr>,
             zoomLevel := newZoom\<rparr>)"

text \<open>\<open>rect\<close> is the top left corner of the canvas element on the screen.\<close>

definition onCanvasWheel :: "mouse_event \<Rightarrow> point \<Rightarrow> unit js" where
  "onCanvasWheel e rect =
     (let mouseX = clientX e - px rect;
          mouseY = clientY e - py rect;
          scaleFactor = (if deltaY e > 0 then 9 / 10 else 11 / 10)
      in zoomAt \<lparr>px = mouseX, py = mouseY\<rparr> scaleFactor)"

section \<open>Loading a serialized workflow\<close>

text \<open>\<open>v || d\<close> for a value that is a string or missing.\<close>

definition or_default :: "string option \<Rightarrow> string \<Rightarrow> string" where
  "or_default v d = (case v of None \<Rightarrow> d | Some str \<Rightarrow> if str = [] then d else str)"

text \<open>Whether \<open>this.nodeTypes.get(nodeData.type)\<close> is defined.\<close>

definition registered :: "editor \<Rightarrow> node_data \<Rightarrow> bool" where
  "registered s nodeData = (map_of (nodeTypes s) (nd_type nodeData) \<noteq> None)"

text \<open>One step of the loop over \<open>workflowData.nodes\<close>. The arguments of \<open>getNodeInputs\<close> and
  \<open>getNodeOutputs\<close> are \<open>this.nodeTypes.get(nodeData.type)\<close>: for a type that is not
  registered this is \<open>undefined\<close>, and \<open>getNodeInputs\<close> throws when it reads its
  \<open>category\<close>, before the node is stored.
  \<open>nodeData.continue_on_error || false\<close> and \<open>nodeData.timeout || 30\<close> replace a missing
  value and a falsy one (\<open>false\<close>, \<open>0\<close>) alike.\<close>

definition loadNode :: "node_data \<Rightarrow> unit js" where
  "loadNode nodeData s =
     (case map_of (nodeTypes s) (nd_type nodeData) of
        None \<Rightarrow> throw TypeError s
      | Some nodeType \<Rightarrow>
          let node = \<lparr>n_id = nd_id nodeData, n_type = nd_type nodeData, n_name = nd_name nodeData,
                      n_position = nd_position nodeData,
                      n_config = (case nd_config nodeData of None \<Rightarrow> [] | Some c \<Rightarrow> c),
                      n_inputs = getNodeInputs nodeType, n_outputs = getNodeOutputs nodeType,
                      n_description = Some (or_default (nd_description nodeData) []),
                      n_continue_on_error =
                        Some (case nd_continue_on_error nodeData of None \<Rightarrow> False | Some b \<Rightarrow> b),
                      n_timeout =
                        Some (case nd_timeout nodeData of
                                None \<Rightarrow> 30 | Some t \<Rightarrow> if t = 0 then 30 else t)\<rparr>;
              s1 = s\<lparr>nodes := map_set (n_id node) node (nodes s)\<rparr>
          in (case numeric_id (n_id node) of
                None \<Rightarrow> ret () s1
              | Some k \<Rightarrow> if k > nodeCounter s1 then ret () (s1\<lparr>nodeCounter := k\<rparr>)
                          else ret () s1))"





section \<open>A new editor and two types of the built-in catalog\<close>

text \<open>The fields as the constructor sets them; \<open>options.workflowData\<close> when it is given.\<close>

definition constructor :: "workflow_data option \<Rightarrow> editor" where
  "constructor options_workflowData =
     \<lparr>workflowData = (case options_workflowData of
                        None \<Rightarrow> \<lparr>wd_nodes = Some [], wd_connections = Some []\<rparr>
                      | Some wd \<Rightarrow> wd),
      selectedNode = None, selectedConnection = None,
      isDragging = False, isPanning = False, isConnecting = False,
      connectionStart = None,
      dragOffset = \<lparr>px = 0, py = 0\<rparr>, lastMousePos = \<lparr>px = 0, py = 0\<rparr>,
      nodeCounter = 0, clipboard = None,
      canvasOffset = \<lparr>px = 0, py = 0\<rparr>, zoomLevel = 1, gridSize = 20,
      nodeTypes = [], nodes = [], connections = [], isDirty = False\<rparr>"

definition webhook_trigger :: node_type where
  "webhook_trigger =
     \<lparr>nt_name = ''webhook_trigger'', display_name = ''Webhook'', category = ''trigger'',
      config_schema = Some [\<lparr>field_name = ''method'', field_default = Some (JStr ''POST'')\<rparr>,
                            \<lparr>field_name = ''path'', field_default = None\<rparr>]\<rparr>"

definition http_request :: node_type where
  "http_request =
     \<lparr>nt_name = ''http_request'', display_name = ''HTTP Request'', category = ''data'',
      config_schema = Some [\<lparr>field_name = ''method'', field_default = Some (JStr ''GET'')\<rparr>,
                            \<lparr>field_name = ''url'', field_default = None\<rparr>,
                            \<lparr>field_name = ''headers'', field_default = None\<rparr>,
                            \<lparr>field_name = ''body'', field_default = None\<rparr>,
                            \<lparr>field_name = ''timeout'', field_default = Some (JNum 30)\<rparr>]\<rparr>"

text \<open>The body of the loops of \<open>loadNodeTypes\<close> and \<open>loadDefaultNodeTypes\<close>:
  \<open>this.nodeTypes.set(nodeType.name, nodeType)\<close>.\<close>

definition registerNodeType :: "node_type \<Rightarrow> unit js" where
  "registerNodeType nodeType =
     modify (\<lambda>s. s\<lparr>nodeTypes := map_set (nt_name nodeType) nodeType (nodeTypes s)\<rparr>)"

section \<open>Example sessions\<close>

text \<open>A new editor with the two types registered.\<close>

definition registered_editor :: "workflow_data option \<Rightarrow> editor" where
  "registered_editor options_workflowData =
     snd (registerNodeType http_request
       (snd (registerNodeType webhook_trigger (constructor options_workflowData))))"

text \<open>Three nodes A, B and C (\<open>node_1\<close>, \<open>node_2\<close>, \<open>node_3\<close>) with the connections
  A \<open>\<rightarrow>\<close> B and B \<open>\<rightarrow>\<close> C.\<close>

definition abc_editor :: editor where
  "abc_editor =
     snd (addConnection 2 ''b'' ''node_2'' ''output'' ''node_3'' ''input''
       (snd (addConnection 1 ''a'' ''node_1'' ''output'' ''node_2'' ''input''
         (snd (createNodes [(webhook_trigger, \<lparr>px = 0, py = 0\<rparr>),
                            (http_request, \<lparr>px = 100, py = 0\<rparr>),
                            (http_request, \<lparr>px = 200, py = 0\<rparr>)]
                 (registered_editor None))))))"








section \<open>Properties\<close>

subsection \<open>Association lists and the method combinators\<close>


lemmas js_defs = bind_def modify_def ret_def throw_def

lemma map_of_map_set_same: "map_of (map_set k v m) k = Some v"
  by (induction m) auto











subsection \<open>Deleting a node deletes its connections\<close>



subsection \<open>Deleting a connection never fails\<close>




subsection \<open>Self-loops\<close>


text \<open>
  Claim C2 as stated, refuted: \<open>addConnection\<close> with the same node as source and target
  stores the connection and returns its id; the collection has changed.
\<close>

theorem addConnection_self_loop_counterexample:
  "fst (addConnection 3 ''c'' ''node_2'' ''output'' ''node_2'' ''input'' abc_editor) = Inr ''connection_3_c'' \<and>
   map_of (connections (snd (addConnection 3 ''c'' ''node_2'' ''output'' ''node_2'' ''input'' abc_editor)))
     ''connection_3_c'' =
     Some \<lparr>c_id = ''connection_3_c'', c_source = ''node_2'', c_sourceHandle = ''output'',
           c_target = ''node_2'', c_targetHandle = ''input''\<rparr> \<and>
   connections (snd (addConnection 3 ''c'' ''node_2'' ''output'' ''node_2'' ''input'' abc_editor))
     \<noteq> connections abc_editor"
  by code_simp

text \<open>
  Claim C2, amended. The test for a self-loop is made by \<open>finishConnection\<close>, not by
  \<open>addConnection\<close>: for every node \<open>n\<close> (existing or not) and any ports \<open>p\<close>, \<open>q\<close>, a
  connection gesture started at \<open>(n, p)\<close> and released over the input handle \<open>(n, q)\<close> returns
  normally, creates no connection and leaves the connections and the nodes as they were; the
  gesture is over.
\<close>

theorem finishConnection_self_loop:
  assumes "target e = InputHandle n q"
  shows "fst (finishConnection now rnd e (snd (startConnection n p pos s))) = Inr () \<and>
         connections (snd (finishConnection now rnd e (snd (startConnection n p pos s)))) =
           connections s \<and>
         nodes (snd (finishConnection now rnd e (snd (startConnection n p pos s)))) = nodes s \<and>
         connectionStart (snd (finishConnection now rnd e (snd (startConnection n p pos s)))) = None \<and>
         isConnecting (snd (finishConnection now rnd e (snd (startConnection n p pos s)))) = False"
  using assms by (simp add: finishConnection_def startConnection_def js_defs)

text \<open>The gesture from the output of B back to the input of B, in the example.\<close>

theorem finishConnection_self_loop_witness:
  "target \<lparr>clientX = 120, clientY = 40, deltaY = 0, target = InputHandle ''node_2'' ''input''\<rparr>
     = InputHandle ''node_2'' ''input'' \<and>
   fst (finishConnection 3 ''c''
         \<lparr>clientX = 120, clientY = 40, deltaY = 0, target = InputHandle ''node_2'' ''input''\<rparr>
         (snd (startConnection ''node_2'' ''output'' \<lparr>px = 300, py = 50\<rparr> abc_editor))) = Inr () \<and>
   connections (snd (finishConnection 3 ''c''
         \<lparr>clientX = 120, clientY = 40, deltaY = 0, target = InputHandle ''node_2'' ''input''\<rparr>
         (snd (startConnection ''node_2'' ''output'' \<lparr>px = 300, py = 50\<rparr> abc_editor)))) =
     connections abc_editor"
  using finishConnection_self_loop
    [of "\<lparr>clientX = 120, clientY = 40, deltaY = 0, target = InputHandle ''node_2'' ''input''\<rparr>"
        "''node_2''" "''input''" 3 "''c''" "''output''" "\<lparr>px = 300, py = 50\<rparr>" abc_editor]
  by simp

subsection \<open>\<open>addConnection\<close> validates nothing\<close>




subsection \<open>The ports of a new node\<close>





subsection \<open>Loading connections: default handles\<close>











subsection \<open>Reading back the number of a node id\<close>





















subsection \<open>Loading nodes\<close>


lemma loadNode_registered:
  assumes "registered s nd"
  shows "\<exists>s'. loadNode nd s = (Inr (), s') \<and> nodeTypes s' = nodeTypes s \<and>
           workflowData s' = workflowData s \<and> connections s' = connections s \<and>
           nodeCounter s \<le> nodeCounter s' \<and>
           (\<forall>k. numeric_id (nd_id nd) = Some k \<longrightarrow> k \<le> nodeCounter s') \<and>
           map_of (nodes s') (nd_id nd) \<noteq> None"
proof -
  obtain nt where nt: "map_of (nodeTypes s) (nd_type nd) = Some nt"
    using assms by (auto simp: registered_def)
  show ?thesis
  proof (cases "numeric_id (nd_id nd)")
    case None
    then show ?thesis
      using nt by (simp add: loadNode_def Let_def map_of_map_set_same js_defs)
  next
    case (Some k)
    then show ?thesis
      using nt by (simp add: loadNode_def Let_def map_of_map_set_same js_defs)
  qed
qed

lemma registered_cong: "nodeTypes s' = nodeTypes s \<Longrightarrow> registered s' = registered s"
  by (rule ext) (simp add: registered_def)


lemma forEach_loadNode_ok:
  "\<forall>nd \<in> set nds. registered s nd \<Longrightarrow> fst (forEach nds loadNode s) = Inr ()"
proof (induction nds arbitrary: s)
  case Nil
  then show ?case by simp
next
  case (Cons a nds)
  have "registered s a" using Cons.prems by simp
  then obtain s1 where s1: "loadNode a s = (Inr (), s1)" "nodeTypes s1 = nodeTypes s"
    using loadNode_registered by blast
  have r: "registered s1 = registered s"
    using s1(2) by (rule registered_cong)
  have "\<forall>nd \<in> set nds. registered s1 nd" using Cons.prems r by simp
  then have "fst (forEach nds loadNode s1) = Inr ()" by (rule Cons.IH)
  then show ?case using s1(1) by simp
qed




subsection \<open>The node counter after a load\<close>






subsection \<open>Dragging a node\<close>









subsection \<open>Zooming towards a point and back\<close>





end
